theory Spec2Isabelle
  imports Complex_Main "HOL-Library.AList"
begin

section \<open>Go values used by the middleware\<close>

text \<open>
  The package \<^verbatim>\<open>gpmiddleware\<close> (file \<^verbatim>\<open>prometheus.go\<close>) wraps a gin request pipeline
  with a latency histogram. Mutation is explicit state passing, a panic is an outcome, and
  \<^verbatim>\<open>float64\<close> values are idealised as reals.
\<close>

datatype error = AlreadyRegisteredError

datatype outcome = Returned | Panicked

subsection \<open>time.Time, time.Duration\<close>

text \<open>
  A \<^verbatim>\<open>time.Time\<close> obtained from \<^verbatim>\<open>time.Now()\<close> is a clock reading in nanoseconds; a
  \<^verbatim>\<open>time.Duration\<close> is an \<^verbatim>\<open>int64\<close> count of nanoseconds, and \<^verbatim>\<open>t.Sub(u)\<close>
  saturates at the ends of that range.
\<close>

type_synonym Time = int
type_synonym Duration = int

definition Second :: Duration where
  "Second = 1000000000"

definition maxDuration :: Duration where
  "maxDuration = 2 ^ 63 - 1"

definition minDuration :: Duration where
  "minDuration = - (2 ^ 63)"

definition Sub :: "Time \<Rightarrow> Time \<Rightarrow> Duration" where
  "Sub t u = (let d = t - u in
     if d > maxDuration then maxDuration
     else if d < minDuration then minDuration
     else d)"

subsection \<open>strconv.Itoa\<close>

fun digits :: "nat \<Rightarrow> string" where
  "digits n = (if n < 10 then [char_of (48 + n)]
     else digits (n div 10) @ [char_of (48 + n mod 10)])"

declare digits.simps [simp del]

definition Itoa :: "int \<Rightarrow> string" where
  "Itoa i = (if i < 0 then CHR ''-'' # digits (nat (- i)) else digits (nat i))"

subsection \<open>net/http request and gin context\<close>

text \<open>
  The URL of a server request in origin form: the path as it appears in the request
  line, and the query. \<^verbatim>\<open>URL.String()\<close> renders the path, then \<^verbatim>\<open>?\<close> and the raw query
  when there is a query (or a bare \<^verbatim>\<open>?\<close> ended the target).
\<close>

record URL =
  Path :: string
  ForceQuery :: bool
  RawQuery :: string

definition URL_String :: "URL \<Rightarrow> string" where
  "URL_String u =
     Path u @ (if ForceQuery u \<or> RawQuery u \<noteq> [] then ''?'' @ RawQuery u else [])"

record Request =
  Method :: string
  URL :: URL

text \<open>
  What the middleware reads from a \<^verbatim>\<open>*gin.Context\<close>: the request, the status of the
  response writer (\<^verbatim>\<open>c.Writer.Status()\<close>), the matched route template
  (\<^verbatim>\<open>c.FullPath()\<close>, empty when no route matched) and the body written so far.
\<close>

record Context =
  Request :: Request
  Status :: int
  FullPath :: string
  Body :: string

section \<open>Histogram store\<close>

text \<open>
  Modelled from the spec: the histogram store is \<^verbatim>\<open>prometheus.HistogramVec\<close> of the
  client library, which is not part of this repository. A histogram holds its bucket
  upper bounds, one cumulative counter per bound, a sum and a count; \<^verbatim>\<open>Observe\<close>
  increments the counter of every bound at or above the value, the sum and the count.
\<close>

record Histogram =
  upperBounds :: "real list"
  counts :: "nat list"
  sampleSum :: real
  sampleCount :: nat

definition newHistogram :: "real list \<Rightarrow> Histogram" where
  "newHistogram bs =
     \<lparr>upperBounds = bs, counts = replicate (length bs) 0, sampleSum = 0, sampleCount = 0\<rparr>"

definition Observe :: "real \<Rightarrow> Histogram \<Rightarrow> Histogram" where
  "Observe v h = h\<lparr>
     counts := map2 (\<lambda>b c. if v \<le> b then c + 1 else c) (upperBounds h) (counts h),
     sampleSum := sampleSum h + v,
     sampleCount := sampleCount h + 1\<rparr>"

record HistogramOpts =
  Namespace :: string
  Subsystem :: string
  Name :: string
  Help :: string
  Buckets :: "real list"

text \<open>
  A \<^verbatim>\<open>*HistogramVec\<close> is a reference: \<open>ref\<close> is its identity, and the histograms of
  its label tuples live in the state under that identity.
\<close>

record HistogramVec =
  opts :: HistogramOpts
  labelNames :: "string list"
  ref :: nat

text \<open>
  The fully-qualified name of a metric. \<^verbatim>\<open>prometheus.BuildFQName\<close> belongs to the client
  library, which is not part of this repository; after its documentation it joins the
  three components with an underscore, ignores empty components, and returns the empty
  string for an empty name. \<open>registerMetrics\<close> sets no namespace.
\<close>

definition BuildFQName :: "string \<Rightarrow> string \<Rightarrow> string \<Rightarrow> string" where
  "BuildFQName namespace subsystem name =
     (if name = [] then []
      else if namespace \<noteq> [] \<and> subsystem \<noteq> [] then namespace @ ''_'' @ subsystem @ ''_'' @ name
      else if namespace \<noteq> [] then namespace @ ''_'' @ name
      else if subsystem \<noteq> [] then subsystem @ ''_'' @ name
      else name)"

definition fqName :: "HistogramVec \<Rightarrow> string" where
  "fqName hv = BuildFQName (Namespace (opts hv)) (Subsystem (opts hv)) (Name (opts hv))"

type_synonym children = "(string list \<times> Histogram) list"

section \<open>Process state\<close>

text \<open>
  The process-wide default registry, the histograms of every vector, the allocation
  counter for vectors, standard output, the clock, and the context of the request being
  served.
\<close>

record state =
  registry :: "HistogramVec list"
  store :: "nat \<Rightarrow> children"
  fresh :: nat
  stdout :: string
  now :: Time
  ctx :: Context

type_synonym handler = "state \<Rightarrow> outcome \<times> state"

text \<open>
  A \<^verbatim>\<open>gin.HandlerFunc\<close>: its first argument is what \<^verbatim>\<open>c.Next()\<close> runs, the rest of
  the chain.
\<close>

type_synonym HandlerFunc = "handler \<Rightarrow> handler"

text \<open>
  Modelled from the spec: \<^verbatim>\<open>prometheus.NewHistogramVec\<close> of the client library allocates
  a vector with the given options and label names and no histogram yet.
\<close>

definition NewHistogramVec :: "HistogramOpts \<Rightarrow> string list \<Rightarrow> state \<Rightarrow> HistogramVec \<times> state" where
  "NewHistogramVec ops names s =
     (\<lparr>opts = ops, labelNames = names, ref = fresh s\<rparr>,
      s\<lparr>store := (store s)(fresh s := []), fresh := fresh s + 1\<rparr>)"

text \<open>
  Modelled from the spec: \<^verbatim>\<open>prometheus.Register\<close> of the client library fails with a
  registration error when a metric of the same name is already in the process-wide
  registry, and adds the collector otherwise.
\<close>

definition Register :: "HistogramVec \<Rightarrow> state \<Rightarrow> error option \<times> state" where
  "Register c s =
     (if fqName c \<in> set (map fqName (registry s)) then (Some AlreadyRegisteredError, s)
      else (None, s\<lparr>registry := registry s @ [c]\<rparr>))"

text \<open>
  Modelled from the spec: \<^verbatim>\<open>v.WithLabelValues(lvs...).Observe(x)\<close> of the client library.
  The call panics on a nil vector and on a label count other than the vector's; otherwise
  the histogram of the tuple is created on first use, with the buckets of the vector, and
  observes the value. Label values are taken to be valid UTF-8, as request methods and
  route templates are.
\<close>

definition child :: "HistogramVec \<Rightarrow> string list \<Rightarrow> children \<Rightarrow> Histogram" where
  "child hv lvs cs =
     (case map_of cs lvs of Some h \<Rightarrow> h | None \<Rightarrow> newHistogram (Buckets (opts hv)))"

definition WithLabelValues_Observe :: "HistogramVec option \<Rightarrow> string list \<Rightarrow> real \<Rightarrow> handler" where
  "WithLabelValues_Observe v lvs x s =
     (case v of
        None \<Rightarrow> (Panicked, s)
      | Some hv \<Rightarrow>
          if length lvs \<noteq> length (labelNames hv) then (Panicked, s)
          else (Returned,
            s\<lparr>store := (store s)(ref hv :=
                 AList.update lvs (Observe x (child hv lvs (store s (ref hv)))) (store s (ref hv)))\<rparr>))"

section \<open>Metrics exporter\<close>

text \<open>
  Modelled from the spec: \<^verbatim>\<open>promhttp.Handler()\<close> of the client library reads the
  current state of every registered metric and writes it, with status 200, in the
  plaintext exposition format. The format itself is a parameter.
\<close>

type_synonym exposition = "(HistogramVec \<times> children) list \<Rightarrow> string"

definition Gather :: "state \<Rightarrow> (HistogramVec \<times> children) list" where
  "Gather s = map (\<lambda>hv. (hv, store s (ref hv))) (registry s)"

definition ServeHTTP :: "exposition \<Rightarrow> state \<Rightarrow> state" where
  "ServeHTTP expo s =
     s\<lparr>ctx := (ctx s)\<lparr>Status := 200, Body := Body (ctx s) @ expo (Gather s)\<rparr>\<rparr>"

definition prometheusHandler :: "exposition \<Rightarrow> HandlerFunc" where
  "prometheusHandler expo = (\<lambda>Next s. (Returned, ServeHTTP expo s))"

section \<open>The middleware\<close>

text \<open>
  A \<^verbatim>\<open>*gin.Engine\<close> as far as the package uses it: the global middleware and the
  routes, each with its method, path and handler chain.
\<close>

record Engine =
  Handlers :: "HandlerFunc list"
  routes :: "(string \<times> string \<times> HandlerFunc list) list"

definition Engine_Use :: "Engine \<Rightarrow> HandlerFunc \<Rightarrow> Engine" where
  "Engine_Use e m = e\<lparr>Handlers := Handlers e @ [m]\<rparr>"

definition Engine_GET :: "Engine \<Rightarrow> string \<Rightarrow> HandlerFunc \<Rightarrow> Engine" where
  "Engine_GET e path h = e\<lparr>routes := routes e @ [(''GET'', path, Handlers e @ [h])]\<rparr>"

definition defaultMetricPath :: string where
  "defaultMetricPath = ''/metrics''"

record Prometheus =
  reqDur :: "HistogramVec option"
  router :: "Engine option"
  listenAddress :: string
  MetricsPath :: string

text \<open>
  The formatting done by the standard library for the log line: \<^verbatim>\<open>Time.Format\<close> with
  a layout, and the verb \<^verbatim>\<open>%f\<close> of \<^verbatim>\<open>fmt.Printf\<close>.
\<close>

record Fmt =
  Format :: "string \<Rightarrow> Time \<Rightarrow> string"
  verb_f :: "real \<Rightarrow> string"

definition reqDurBuckets :: "real list" where
  "reqDurBuckets =
     [0.0001, 0.0002, 0.0005,
      0.001, 0.002, 0.005,
      0.01, 0.02, 0.05,
      0.1, 0.2, 0.5,
      1, 2, 5]"

definition registerMetrics :: "string \<Rightarrow> Prometheus \<Rightarrow> state \<Rightarrow> Prometheus \<times> state" where
  "registerMetrics subsystem p s =
     (let (hv, s1) = NewHistogramVec
            \<lparr>Namespace = [], Subsystem = subsystem, Name = ''request_duration_seconds'',
             Help = ''Histogram request latencies'', Buckets = reqDurBuckets\<rparr>
            [''code'', ''path''] s;
          p1 = p\<lparr>reqDur := Some hv\<rparr>;
          (err, s2) = Register hv s1
      in (p1, s2))"

text \<open>
  \<open>Inl\<close> would be an aborted initialisation; the error of \<^verbatim>\<open>prometheus.Register\<close>
  is dropped in \<open>registerMetrics\<close>, so there is no such branch.
\<close>

definition NewPrometheus :: "string \<Rightarrow> state \<Rightarrow> error + Prometheus \<times> state" where
  "NewPrometheus subsystem s =
     (let p = \<lparr>reqDur = None, router = None, listenAddress = [],
                MetricsPath = defaultMetricPath\<rparr>
      in Inr (registerMetrics subsystem p s))"

definition SetListenAddress :: "Engine \<Rightarrow> Prometheus \<Rightarrow> string \<Rightarrow> Prometheus" where
  "SetListenAddress ginDefault p address =
     (let p1 = p\<lparr>listenAddress := address\<rparr>
      in if listenAddress p1 \<noteq> [] then p1\<lparr>router := Some ginDefault\<rparr> else p1)"

definition SetListenAddressWithRouter :: "Prometheus \<Rightarrow> string \<Rightarrow> Engine option \<Rightarrow> Prometheus" where
  "SetListenAddressWithRouter p address r =
     (let p1 = p\<lparr>listenAddress := address\<rparr>
      in if length (listenAddress p1) > 0 then p1\<lparr>router := r\<rparr> else p1)"

text \<open>
  \<open>runServer\<close> starts the dedicated listener: the result is the address and engine
  served, if any.
\<close>

definition runServer :: "Prometheus \<Rightarrow> (string \<times> Engine) option" where
  "runServer p =
     (if listenAddress p \<noteq> [] then map_option (\<lambda>r. (listenAddress p, r)) (router p)
      else None)"

text \<open>\<open>None\<close> is the panic on a nil router.\<close>

definition SetMetricsPath ::
  "exposition \<Rightarrow> Prometheus \<Rightarrow> Engine \<Rightarrow> (Prometheus \<times> Engine \<times> (string \<times> Engine) option) option" where
  "SetMetricsPath expo p e =
     (if listenAddress p \<noteq> [] then
        (case router p of
           None \<Rightarrow> None
         | Some r \<Rightarrow>
             let p1 = p\<lparr>router := Some (Engine_GET r (MetricsPath p) (prometheusHandler expo))\<rparr>
             in Some (p1, e, runServer p1))
      else Some (p, Engine_GET e (MetricsPath p) (prometheusHandler expo), None))"

definition Printf_capture :: "Fmt \<Rightarrow> Time \<Rightarrow> Time \<Rightarrow> real \<Rightarrow> string" where
  "Printf_capture F start end' elapsed =
     ''Prometheus capture start-ts::'' @ Format F ''2006-01-02 15:04:05.000000'' start @
     '' end-ts::'' @ Format F ''2006-01-02 15:04:05.000000'' end' @
     '' elapsed::'' @ verb_f F elapsed @ [CHR 0x0A]"

definition HandlerFunc :: "Fmt \<Rightarrow> Prometheus \<Rightarrow> HandlerFunc" where
  "HandlerFunc F p = (\<lambda>Next s.
     if URL_String (URL (Request (ctx s))) = MetricsPath p then Next s
     else
       let start = now s in
       case Next s of
         (Panicked, s1) \<Rightarrow> (Panicked, s1)
       | (Returned, s1) \<Rightarrow>
           let status = Itoa (Status (ctx s1));
               end' = now s1;
               elapsedTS = Sub end' start;
               elapsed = real_of_int elapsedTS / real_of_int Second;
               s2 = s1\<lparr>stdout := stdout s1 @ Printf_capture F start end' elapsed\<rparr>;
               path = FullPath (ctx s2);
               path = (if path = [] then ''404'' else path)
           in WithLabelValues_Observe (reqDur p)
                [status, Method (Request (ctx s2)) @ ''_'' @ path] elapsed s2)"


definition UseCustom ::
  "Fmt \<Rightarrow> exposition \<Rightarrow> Prometheus \<Rightarrow> Engine \<Rightarrow> (Prometheus \<times> Engine \<times> (string \<times> Engine) option) option" where
  "UseCustom F expo p e = SetMetricsPath expo p (Engine_Use e (HandlerFunc F p))"

section \<open>Vocabulary of the properties\<close>

text \<open>A run of observations on one label tuple of a vector.\<close>

fun observe_seq :: "HistogramVec \<Rightarrow> string list \<Rightarrow> real list \<Rightarrow> state \<Rightarrow> state" where
  "observe_seq hv lvs [] s = s"
| "observe_seq hv lvs (v # vs) s =
     observe_seq hv lvs vs (snd (WithLabelValues_Observe (Some hv) lvs v s))"

definition wf_histogram :: "Histogram \<Rightarrow> bool" where
  "wf_histogram h = (length (counts h) = length (upperBounds h))"

text \<open>
  A process that has registered nothing yet, serving \<^verbatim>\<open>GET /users/42\<close> on the route
  \<^verbatim>\<open>/users/:id\<close>, and the vector that \<^verbatim>\<open>NewPrometheus("api")\<close> creates there.
\<close>

definition init :: state where
  "init = \<lparr>registry = [], store = (\<lambda>r. []), fresh = 0, stdout = [], now = 0,
     ctx = \<lparr>Request = \<lparr>Method = ''GET'',
                URL = \<lparr>Path = ''/users/42'', ForceQuery = False, RawQuery = []\<rparr>\<rparr>,
            Status = 200, FullPath = ''/users/:id'', Body = []\<rparr>\<rparr>"

definition api :: HistogramVec where
  "api = \<lparr>opts = \<lparr>Namespace = [], Subsystem = ''api'', Name = ''request_duration_seconds'',
             Help = ''Histogram request latencies'', Buckets = reqDurBuckets\<rparr>,
          labelNames = [''code'', ''path''], ref = 0\<rparr>"

text \<open>The number that a string of decimal digits denotes.\<close>

definition decimal_value :: "string \<Rightarrow> nat" where
  "decimal_value cs = foldl (\<lambda>a c. 10 * a + (of_char c - 48)) 0 cs"

text \<open>The observations held by a vector: the sum of the counts of its label tuples.\<close>

definition total_count :: "children \<Rightarrow> nat" where
  "total_count cs = sum_list (map (\<lambda>(l, h). sampleCount h) cs)"

text \<open>The store after one observation of \<open>x\<close> on the tuple \<open>lvs\<close> of \<open>hv\<close>.\<close>

definition observed :: "HistogramVec \<Rightarrow> string list \<Rightarrow> real \<Rightarrow> state \<Rightarrow> nat \<Rightarrow> children" where
  "observed hv lvs x s =
     (store s)(ref hv :=
        AList.update lvs (Observe x (child hv lvs (store s (ref hv)))) (store s (ref hv)))"

text \<open>
  Concrete inputs: a formatter that prints milliseconds, the value that
  \<^verbatim>\<open>NewPrometheus("api")\<close> returns in \<open>init\<close>, downstream chains that answer after 15 ms,
  that answer 404, that have nothing left to run, and that panic, an exposition that lists
  the metric names, and requests for the metrics path with and without a query and for a
  path with no route.
\<close>

definition fmt_ms :: Fmt where
  "fmt_ms = \<lparr>Format = (\<lambda>layout t. Itoa (t div 1000000)), verb_f = (\<lambda>x. Itoa (floor (x * 1000)))\<rparr>"

definition p_api :: Prometheus where
  "p_api = \<lparr>reqDur = Some api, router = None, listenAddress = [], MetricsPath = ''/metrics''\<rparr>"

definition serve_15ms :: handler where
  "serve_15ms = (\<lambda>s. (Returned, s\<lparr>now := now s + 15000000, ctx := (ctx s)\<lparr>Status := 200\<rparr>\<rparr>))"

definition chain_end :: handler where
  "chain_end = (\<lambda>s. (Returned, s))"

definition panicking :: handler where
  "panicking = (\<lambda>s. (Panicked, s))"

definition expo_names :: exposition where
  "expo_names = (\<lambda>ms. concat (map (\<lambda>(hv, cs). fqName hv @ [CHR 0x0A]) ms))"


definition unmatched :: state where
  "unmatched = init\<lparr>ctx :=
     \<lparr>Request = \<lparr>Method = ''POST'',
                 URL = \<lparr>Path = ''/nope'', ForceQuery = False, RawQuery = []\<rparr>\<rparr>,
      Status = 404, FullPath = [], Body = []\<rparr>\<rparr>"

definition scrape_plain :: state where
  "scrape_plain = init\<lparr>ctx :=
     \<lparr>Request = \<lparr>Method = ''GET'',
                 URL = \<lparr>Path = ''/metrics'', ForceQuery = False, RawQuery = []\<rparr>\<rparr>,
      Status = 200, FullPath = ''/metrics'', Body = []\<rparr>\<rparr>"

definition served :: state where
  "served = init\<lparr>now := 15000000, ctx := (ctx init)\<lparr>Status := 200\<rparr>\<rparr>"

definition answer_404 :: handler where
  "answer_404 = (\<lambda>s. (Returned, s\<lparr>now := now s + 1000, ctx := (ctx s)\<lparr>Status := 404\<rparr>\<rparr>))"

definition answered_404 :: state where
  "answered_404 = unmatched\<lparr>now := 1000, ctx := (ctx unmatched)\<lparr>Status := 404\<rparr>\<rparr>"


definition plain_engine :: Engine where
  "plain_engine = \<lparr>Handlers = [], routes = []\<rparr>"

text \<open>
  Exporter reads interleaved with observations: each action is one read of the metrics
  endpoint or one observation on a label tuple of a vector.
\<close>

datatype action = Scrape | Obs HistogramVec "string list" real

fun interleave :: "exposition \<Rightarrow> handler \<Rightarrow> action list \<Rightarrow> state \<Rightarrow> state" where
  "interleave expo Next [] s = s"
| "interleave expo Next (Scrape # as) s = interleave expo Next as (snd (prometheusHandler expo Next s))"
| "interleave expo Next (Obs hv lvs x # as) s =
     interleave expo Next as (snd (WithLabelValues_Observe (Some hv) lvs x s))"

fun is_Obs :: "action \<Rightarrow> bool" where
  "is_Obs Scrape = False"
| "is_Obs (Obs hv lvs x) = True"

section \<open>The histogram store\<close>

lemma upperBounds_Observe: "upperBounds (Observe v h) = upperBounds h"
  by (simp add: Observe_def)

lemma wf_newHistogram: "wf_histogram (newHistogram bs)"
  by (simp add: wf_histogram_def newHistogram_def)

lemma wf_Observe: "wf_histogram h \<Longrightarrow> wf_histogram (Observe v h)"
  by (simp add: wf_histogram_def Observe_def)

lemma counts_Observe_nth:
  "wf_histogram h \<Longrightarrow> i < length (upperBounds h) \<Longrightarrow>
   counts (Observe v h) ! i = counts h ! i + (if v \<le> upperBounds h ! i then 1 else 0)"
  by (simp add: wf_histogram_def Observe_def)

lemma child_after_Observe:
  "length lvs = length (labelNames hv) \<Longrightarrow>
   child hv lvs (store (snd (WithLabelValues_Observe (Some hv) lvs v s)) (ref hv)) =
   Observe v (child hv lvs (store s (ref hv)))"
  by (simp add: WithLabelValues_Observe_def child_def update_conv')

lemma observe_seq_snoc:
  "observe_seq hv lvs (vs @ [v]) s =
   snd (WithLabelValues_Observe (Some hv) lvs v (observe_seq hv lvs vs s))"
  by (induction vs arbitrary: s) simp_all

lemma child_observe_seq:
  "length lvs = length (labelNames hv) \<Longrightarrow>
   child hv lvs (store (observe_seq hv lvs vs s) (ref hv)) =
   fold Observe vs (child hv lvs (store s (ref hv)))"
  by (induction vs arbitrary: s) (simp_all add: child_after_Observe)

lemma fold_Observe_count: "sampleCount (fold Observe vs h) = sampleCount h + length vs"
  by (induction vs arbitrary: h) (simp_all add: Observe_def)

lemma fold_Observe_sum: "sampleSum (fold Observe vs h) = sampleSum h + sum_list vs"
  by (induction vs arbitrary: h) (simp_all add: Observe_def)

lemma fold_Observe_bounds: "upperBounds (fold Observe vs h) = upperBounds h"
  by (induction vs arbitrary: h) (simp_all add: Observe_def)

lemma fold_Observe_wf: "wf_histogram h \<Longrightarrow> wf_histogram (fold Observe vs h)"
  by (induction vs arbitrary: h) (simp_all add: wf_Observe)

text \<open>
  C5. Observing \<open>v1..vn\<close> on one label tuple that had no histogram yet leaves that tuple
  with count \<open>n\<close> and sum \<open>v1 + ... + vn\<close>; and one more observation \<open>v\<close> adds one to the
  cumulative counter of every bucket bound \<open>b\<close> with \<open>v \<le> b\<close> and leaves the counter of
  every bound below \<open>v\<close> as it was. Values are reals, so the sum is exact.
\<close>

theorem observations_count_sum_buckets:
  assumes "length lvs = length (labelNames hv)"
    and "map_of (store s (ref hv)) lvs = None"
  shows "sampleCount (child hv lvs (store (observe_seq hv lvs vs s) (ref hv))) = length vs
    \<and> sampleSum (child hv lvs (store (observe_seq hv lvs vs s) (ref hv))) = sum_list vs
    \<and> (\<forall>i < length (Buckets (opts hv)).
          counts (child hv lvs (store (observe_seq hv lvs (vs @ [v]) s) (ref hv))) ! i =
          counts (child hv lvs (store (observe_seq hv lvs vs s) (ref hv))) ! i +
            (if v \<le> Buckets (opts hv) ! i then 1 else 0))"
proof -
  let ?first = "child hv lvs (store s (ref hv))"
  let ?cur = "child hv lvs (store (observe_seq hv lvs vs s) (ref hv))"
  have h0: "?first = newHistogram (Buckets (opts hv))"
    using assms(2) by (simp add: child_def)
  have h: "?cur = fold Observe vs ?first"
    using assms(1) by (rule child_observe_seq)
  have wf: "wf_histogram ?cur"
    unfolding h h0 by (rule fold_Observe_wf [OF wf_newHistogram])
  have bs: "upperBounds ?cur = Buckets (opts hv)"
    unfolding h h0 by (simp add: fold_Observe_bounds newHistogram_def)
  have cnt: "sampleCount ?cur = length vs"
    unfolding h h0 by (simp add: fold_Observe_count newHistogram_def)
  have sm: "sampleSum ?cur = sum_list vs"
    unfolding h h0 by (simp add: fold_Observe_sum newHistogram_def)
  have step: "child hv lvs (store (observe_seq hv lvs (vs @ [v]) s) (ref hv)) = Observe v ?cur"
    using assms(1) by (simp add: observe_seq_snoc child_after_Observe)
  have "\<forall>i < length (Buckets (opts hv)).
          counts (Observe v ?cur) ! i = counts ?cur ! i + (if v \<le> Buckets (opts hv) ! i then 1 else 0)"
    using counts_Observe_nth [OF wf] bs by simp
  with cnt sm step show ?thesis by simp
qed

theorem observations_count_sum_buckets_witness:
  "length [''200'', ''GET_/users/:id''] = length (labelNames api)
   \<and> map_of (store init (ref api)) [''200'', ''GET_/users/:id''] = None
   \<and> sampleCount (child api [''200'', ''GET_/users/:id'']
        (store (observe_seq api [''200'', ''GET_/users/:id''] [15 / 1000, 3] init) (ref api))) = 2
   \<and> sampleSum (child api [''200'', ''GET_/users/:id'']
        (store (observe_seq api [''200'', ''GET_/users/:id''] [15 / 1000, 3] init) (ref api))) = 3015 / 1000
   \<and> counts (child api [''200'', ''GET_/users/:id'']
        (store (observe_seq api [''200'', ''GET_/users/:id''] ([15 / 1000, 3] @ [1 / 1000]) init) (ref api))) ! 7 =
      counts (child api [''200'', ''GET_/users/:id'']
        (store (observe_seq api [''200'', ''GET_/users/:id''] [15 / 1000, 3] init) (ref api))) ! 7 + 1"
proof -
  have a: "length [''200'', ''GET_/users/:id''] = length (labelNames api)"
    by (simp add: api_def)
  have b: "map_of (store init (ref api)) [''200'', ''GET_/users/:id''] = None"
    by (simp add: init_def)
  have c: "(7::nat) < length (Buckets (opts api))"
    by (simp add: api_def reqDurBuckets_def)
  have d: "(1 / 1000 :: real) \<le> Buckets (opts api) ! 7"
    by (simp add: api_def reqDurBuckets_def)
  show ?thesis
    using observations_count_sum_buckets [OF a b, of "[15 / 1000, 3]" "1 / 1000"] a b c d
    by simp
qed

section \<open>The interceptor\<close>

lemma HandlerFunc_skip:
  "URL_String (URL (Request (ctx s))) = MetricsPath p \<Longrightarrow> HandlerFunc F p Next s = Next s"
  by (simp add: HandlerFunc_def)

lemma HandlerFunc_panic:
  "URL_String (URL (Request (ctx s))) \<noteq> MetricsPath p \<Longrightarrow> Next s = (Panicked, s1) \<Longrightarrow>
   HandlerFunc F p Next s = (Panicked, s1)"
  by (simp add: HandlerFunc_def)

lemma HandlerFunc_returned:
  "URL_String (URL (Request (ctx s))) \<noteq> MetricsPath p \<Longrightarrow> Next s = (Returned, s1) \<Longrightarrow>
   HandlerFunc F p Next s =
   WithLabelValues_Observe (reqDur p)
     [Itoa (Status (ctx s1)),
      Method (Request (ctx s1)) @ ''_'' @ (if FullPath (ctx s1) = [] then ''404'' else FullPath (ctx s1))]
     (real_of_int (Sub (now s1) (now s)) / real_of_int Second)
     (s1\<lparr>stdout := stdout s1 @
        Printf_capture F (now s) (now s1) (real_of_int (Sub (now s1) (now s)) / real_of_int Second)\<rparr>)"
  by (simp add: HandlerFunc_def Let_def)

lemma WithLabelValues_Observe_ok:
  "length lvs = length (labelNames hv) \<Longrightarrow>
   WithLabelValues_Observe (Some hv) lvs x s = (Returned, s\<lparr>store := observed hv lvs x s\<rparr>)"
  by (simp add: WithLabelValues_Observe_def observed_def)

lemma total_count_update:
  "total_count (AList.update k (Observe x (child hv k cs)) cs) = total_count cs + 1"
proof -
  have "total_count (AList.update k (Observe x (case map_of cs k of Some h \<Rightarrow> h | None \<Rightarrow> d)) cs)
      = total_count cs + 1" if "sampleCount d = 0" for d
    using that
    by (induction cs) (auto simp: total_count_def Observe_def)
  then show ?thesis
    by (simp add: child_def newHistogram_def)
qed

lemma total_count_observed:
  "total_count (observed hv lvs x s (ref hv)) = total_count (store s (ref hv)) + 1"
  by (simp add: observed_def total_count_update)

lemma observed_other_ref: "r \<noteq> ref hv \<Longrightarrow> observed hv lvs x s r = store s r"
  by (simp add: observed_def)

lemma observed_same: "map_of (observed hv lvs x s (ref hv)) lvs = Some (Observe x (child hv lvs (store s (ref hv))))"
  by (simp add: observed_def update_conv')

lemma observed_other_labels: "l \<noteq> lvs \<Longrightarrow> map_of (observed hv lvs x s r) l = map_of (store s r) l"
  by (simp add: observed_def update_conv')

lemma Sub_exact: "minDuration \<le> t - u \<Longrightarrow> t - u \<le> maxDuration \<Longrightarrow> Sub t u = t - u"
  by (simp add: Sub_def Let_def)



lemma HandlerFunc_observes:
  assumes "URL_String (URL (Request (ctx s))) \<noteq> MetricsPath p"
    and "Next s = (Returned, s1)"
    and "reqDur p = Some hv"
    and "length (labelNames hv) = 2"
  shows "HandlerFunc F p Next s =
    (Returned,
     s1\<lparr>stdout := stdout s1 @
          Printf_capture F (now s) (now s1) (real_of_int (Sub (now s1) (now s)) / real_of_int Second),
        store := observed hv
          [Itoa (Status (ctx s1)),
           Method (Request (ctx s1)) @ ''_'' @ (if FullPath (ctx s1) = [] then ''404'' else FullPath (ctx s1))]
          (real_of_int (Sub (now s1) (now s)) / real_of_int Second) s1\<rparr>)"
  using assms
  by (simp add: HandlerFunc_returned WithLabelValues_Observe_ok observed_def)

subsection \<open>strconv.Itoa renders in decimal\<close>

lemma decimal_value_snoc:
  "decimal_value (cs @ [c]) = 10 * decimal_value cs + (of_char c - 48)"
  by (simp add: decimal_value_def)

lemma decimal_value_digits: "decimal_value (digits n) = n"
proof (induction n rule: digits.induct)
  case (1 n)
  show ?case
  proof (cases "n < 10")
    case True
    then show ?thesis
      by (subst digits.simps) (simp add: decimal_value_def of_char_of)
  next
    case False
    have "decimal_value (digits n) =
        10 * decimal_value (digits (n div 10)) + (of_char (char_of (48 + n mod 10)) - 48)"
      using False by (subst digits.simps) (simp add: decimal_value_snoc)
    also have "\<dots> = 10 * (n div 10) + n mod 10"
      using 1 False by (simp add: of_char_of)
    finally show ?thesis by simp
  qed
qed

lemma Itoa_decimal: "0 \<le> i \<Longrightarrow> decimal_value (Itoa i) = nat i"
  by (simp add: Itoa_def decimal_value_digits)

lemma Itoa_negative: "i < 0 \<Longrightarrow> Itoa i = CHR ''-'' # Itoa (- i)"
  by (simp add: Itoa_def)

subsection \<open>Concrete runs\<close>

lemma Itoa_200: "Itoa 200 = ''200''" by code_simp



lemma Itoa_404: "Itoa 404 = ''404''" by code_simp

lemma instrumented_init: "URL_String (URL (Request (ctx init))) \<noteq> MetricsPath p_api"
  by (simp add: init_def p_api_def URL_String_def)

lemma serve_15ms_init: "serve_15ms init = (Returned, served)"
  by (simp add: serve_15ms_def served_def init_def)

lemma reqDur_p_api: "reqDur p_api = Some api"
  by (simp add: p_api_def)

lemma labelNames_api: "length (labelNames api) = 2"
  by (simp add: api_def)

lemma Observe_15ms:
  "counts (Observe (15 / 1000) (newHistogram reqDurBuckets)) = [0, 0, 0, 0, 0, 0, 0, 1, 1, 1, 1, 1, 1, 1, 1]"
  by (simp add: Observe_def newHistogram_def reqDurBuckets_def)

lemma served_facts:
  "Status (ctx served) = 200" "FullPath (ctx served) = ''/users/:id''"
  "Method (Request (ctx served)) = ''GET''" "now served = 15000000" "now init = 0"
  "store served (ref api) = []" "stdout served = []"
  by (simp_all add: served_def init_def)

lemma Sub_15ms: "Sub 15000000 0 = 15000000"
  by (simp add: Sub_def minDuration_def maxDuration_def)

lemma instrumented_unmatched: "URL_String (URL (Request (ctx unmatched))) \<noteq> MetricsPath p_api"
  by (simp add: unmatched_def p_api_def URL_String_def)

lemma answer_404_unmatched: "answer_404 unmatched = (Returned, answered_404)"
  by (simp add: answer_404_def answered_404_def unmatched_def init_def)

lemma answered_404_facts:
  "Status (ctx answered_404) = 404" "FullPath (ctx answered_404) = []"
  "Method (Request (ctx answered_404)) = ''POST''" "now answered_404 = 1000" "now unmatched = 0"
  "store answered_404 (ref api) = []"
  by (simp_all add: answered_404_def unmatched_def init_def)

subsection \<open>Requests for the metrics path\<close>




subsection \<open>Instrumented requests\<close>

text \<open>
  C3, as the code has it. For a request that is instrumented (its URL string is not the
  metrics path), on a value built by \<open>NewPrometheus\<close>: when the downstream chain returns,
  the interceptor returns and makes exactly one observation, of the elapsed value on the
  derived label tuple (the vector holds one observation more, the histogram of that tuple
  observed the value, every other tuple and every other vector is as the downstream chain
  left it); when the downstream chain panics, the panic passes through the interceptor
  and nothing is observed.
\<close>

theorem one_observation_when_downstream_returns:
  assumes "URL_String (URL (Request (ctx s))) \<noteq> MetricsPath p"
    and "reqDur p = Some hv"
    and "length (labelNames hv) = 2"
  shows "(Next s = (Returned, s1) \<longrightarrow>
            fst (HandlerFunc F p Next s) = Returned
          \<and> total_count (store (snd (HandlerFunc F p Next s)) (ref hv)) =
              total_count (store s1 (ref hv)) + 1
          \<and> map_of (store (snd (HandlerFunc F p Next s)) (ref hv))
                [Itoa (Status (ctx s1)),
                 Method (Request (ctx s1)) @ ''_'' @
                   (if FullPath (ctx s1) = [] then ''404'' else FullPath (ctx s1))] =
              Some (Observe (real_of_int (Sub (now s1) (now s)) / 1000000000)
                (child hv
                   [Itoa (Status (ctx s1)),
                    Method (Request (ctx s1)) @ ''_'' @
                      (if FullPath (ctx s1) = [] then ''404'' else FullPath (ctx s1))]
                   (store s1 (ref hv))))
          \<and> (\<forall>l. l \<noteq> [Itoa (Status (ctx s1)),
                       Method (Request (ctx s1)) @ ''_'' @
                         (if FullPath (ctx s1) = [] then ''404'' else FullPath (ctx s1))] \<longrightarrow>
                 map_of (store (snd (HandlerFunc F p Next s)) (ref hv)) l =
                 map_of (store s1 (ref hv)) l)
          \<and> (\<forall>r. r \<noteq> ref hv \<longrightarrow> store (snd (HandlerFunc F p Next s)) r = store s1 r))
       \<and> (Next s = (Panicked, s1) \<longrightarrow> HandlerFunc F p Next s = (Panicked, s1))"
proof (intro conjI impI)
  assume n: "Next s = (Panicked, s1)"
  show "HandlerFunc F p Next s = (Panicked, s1)"
    using assms(1) n by (rule HandlerFunc_panic)
next
  assume n: "Next s = (Returned, s1)"
  note h = HandlerFunc_observes [where Next = Next and F = F, OF assms(1) n assms(2) assms(3)]
  show "fst (HandlerFunc F p Next s) = Returned"
    by (simp add: h)
  show "total_count (store (snd (HandlerFunc F p Next s)) (ref hv)) = total_count (store s1 (ref hv)) + 1"
    by (simp add: h total_count_observed)
  show "map_of (store (snd (HandlerFunc F p Next s)) (ref hv))
                [Itoa (Status (ctx s1)),
                 Method (Request (ctx s1)) @ ''_'' @
                   (if FullPath (ctx s1) = [] then ''404'' else FullPath (ctx s1))] =
              Some (Observe (real_of_int (Sub (now s1) (now s)) / 1000000000)
                (child hv
                   [Itoa (Status (ctx s1)),
                    Method (Request (ctx s1)) @ ''_'' @
                      (if FullPath (ctx s1) = [] then ''404'' else FullPath (ctx s1))]
                   (store s1 (ref hv))))"
    by (simp add: h observed_same Second_def)
  show "\<forall>l. l \<noteq> [Itoa (Status (ctx s1)),
                       Method (Request (ctx s1)) @ ''_'' @
                         (if FullPath (ctx s1) = [] then ''404'' else FullPath (ctx s1))] \<longrightarrow>
                 map_of (store (snd (HandlerFunc F p Next s)) (ref hv)) l =
                 map_of (store s1 (ref hv)) l"
    by (simp add: h observed_other_labels)
  show "\<forall>r. r \<noteq> ref hv \<longrightarrow> store (snd (HandlerFunc F p Next s)) r = store s1 r"
    by (simp add: h observed_other_ref)
qed

theorem one_observation_when_downstream_returns_witness:
  "URL_String (URL (Request (ctx init))) \<noteq> MetricsPath p_api
   \<and> reqDur p_api = Some api
   \<and> length (labelNames api) = 2
   \<and> serve_15ms init = (Returned, served)
   \<and> fst (HandlerFunc fmt_ms p_api serve_15ms init) = Returned
   \<and> total_count (store (snd (HandlerFunc fmt_ms p_api serve_15ms init)) (ref api)) = 1
   \<and> map_of (store (snd (HandlerFunc fmt_ms p_api serve_15ms init)) (ref api))
        [''200'', ''GET_/users/:id''] = Some (Observe (15 / 1000) (newHistogram reqDurBuckets))
   \<and> panicking init = (Panicked, init)
   \<and> HandlerFunc fmt_ms p_api panicking init = (Panicked, init)"
proof -
  have a: "panicking init = (Panicked, init)"
    by (simp add: panicking_def)
  have b: "child api [''200'', ''GET_/users/:id''] [] = newHistogram reqDurBuckets"
    by (simp add: child_def api_def)
  have c: "total_count [] = 0"
    by (simp add: total_count_def)
  show ?thesis
    using one_observation_when_downstream_returns
        [OF instrumented_init reqDur_p_api labelNames_api,
         where Next = serve_15ms and ?s1.0 = served and F = fmt_ms]
      one_observation_when_downstream_returns
        [OF instrumented_init reqDur_p_api labelNames_api,
         where Next = panicking and ?s1.0 = init and F = fmt_ms]
      instrumented_init reqDur_p_api labelNames_api serve_15ms_init a b c
    by (simp add: served_facts Itoa_200 Sub_15ms)
qed

text \<open>
  C3 as stated fails: an instrumented request whose downstream chain panics leaves the
  interceptor with the panic and without an observation.
\<close>

theorem panicking_downstream_counterexample:
  "URL_String (URL (Request (ctx init))) \<noteq> MetricsPath p_api
   \<and> reqDur p_api = Some api
   \<and> panicking init = (Panicked, init)
   \<and> HandlerFunc fmt_ms p_api panicking init = (Panicked, init)
   \<and> total_count (store init (ref api)) = 0"
proof -
  have a: "panicking init = (Panicked, init)"
    by (simp add: panicking_def)
  have b: "HandlerFunc fmt_ms p_api panicking init = (Panicked, init)"
    using instrumented_init a by (rule HandlerFunc_panic)
  have c: "total_count (store init (ref api)) = 0"
    by (simp add: total_count_def init_def)
  from a b c instrumented_init reqDur_p_api show ?thesis
    by simp
qed

text \<open>
  C4. For an instrumented request that matched no route (\<^verbatim>\<open>c.FullPath()\<close> is empty) and
  whose downstream chain returns, the observation is recorded on the tuple whose path
  label is the method followed by \<^verbatim>\<open>_404\<close> and whose status label is the decimal
  rendering of the status the writer holds, whatever that status is; no other tuple
  changes.
\<close>

theorem unmatched_route_label:
  assumes "URL_String (URL (Request (ctx s))) \<noteq> MetricsPath p"
    and "Next s = (Returned, s1)"
    and "reqDur p = Some hv"
    and "length (labelNames hv) = 2"
    and "FullPath (ctx s1) = []"
  shows "map_of (store (snd (HandlerFunc F p Next s)) (ref hv))
           [Itoa (Status (ctx s1)), Method (Request (ctx s1)) @ ''_404''] =
         Some (Observe (real_of_int (Sub (now s1) (now s)) / 1000000000)
           (child hv [Itoa (Status (ctx s1)), Method (Request (ctx s1)) @ ''_404'']
              (store s1 (ref hv))))
       \<and> (\<forall>l. l \<noteq> [Itoa (Status (ctx s1)), Method (Request (ctx s1)) @ ''_404''] \<longrightarrow>
             map_of (store (snd (HandlerFunc F p Next s)) (ref hv)) l = map_of (store s1 (ref hv)) l)"
  using HandlerFunc_observes [where Next = Next and F = F, OF assms(1-4)] assms(5)
  by (simp add: observed_same observed_other_labels Second_def)

theorem unmatched_route_label_witness:
  "URL_String (URL (Request (ctx unmatched))) \<noteq> MetricsPath p_api
   \<and> answer_404 unmatched = (Returned, answered_404)
   \<and> reqDur p_api = Some api
   \<and> length (labelNames api) = 2
   \<and> FullPath (ctx answered_404) = []
   \<and> map_of (store (snd (HandlerFunc fmt_ms p_api answer_404 unmatched)) (ref api))
        [''404'', ''POST_404''] = Some (Observe (1 / 1000000) (newHistogram reqDurBuckets))
   \<and> map_of (store (snd (HandlerFunc fmt_ms p_api answer_404 unmatched)) (ref api))
        [''404'', ''POST_/nope''] = None"
proof -
  have a: "FullPath (ctx answered_404) = []"
    by (simp add: answered_404_facts)
  have b: "child api [''404'', ''POST_404''] [] = newHistogram reqDurBuckets"
    by (simp add: child_def api_def)
  have c: "Sub 1000 0 = 1000"
    by (simp add: Sub_def minDuration_def maxDuration_def)
  show ?thesis
    using unmatched_route_label
        [where Next = answer_404 and F = fmt_ms,
         OF instrumented_unmatched answer_404_unmatched reqDur_p_api labelNames_api a]
      instrumented_unmatched answer_404_unmatched reqDur_p_api labelNames_api a b c
    by (simp add: answered_404_facts Itoa_404)
qed

text \<open>
  C6. For an instrumented request whose downstream chain returns, the observed value is
  \<^verbatim>\<open>end.Sub(start)\<close> in seconds, where \<open>start\<close> is the clock before the downstream
  chain ran and \<open>end\<close> the clock after it returned, and that duration is \<open>end - start\<close>
  whenever the difference fits a \<^verbatim>\<open>time.Duration\<close>; the status label is
  \<^verbatim>\<open>strconv.Itoa\<close> of the status read after the downstream chain returned, the decimal
  digits of that status.
\<close>

theorem elapsed_and_status_after_downstream:
  assumes "URL_String (URL (Request (ctx s))) \<noteq> MetricsPath p"
    and "Next s = (Returned, s1)"
    and "reqDur p = Some hv"
    and "length (labelNames hv) = 2"
  shows "map_of (store (snd (HandlerFunc F p Next s)) (ref hv))
           [Itoa (Status (ctx s1)),
            Method (Request (ctx s1)) @ ''_'' @
              (if FullPath (ctx s1) = [] then ''404'' else FullPath (ctx s1))] =
         Some (Observe (real_of_int (Sub (now s1) (now s)) / 1000000000)
           (child hv
              [Itoa (Status (ctx s1)),
               Method (Request (ctx s1)) @ ''_'' @
                 (if FullPath (ctx s1) = [] then ''404'' else FullPath (ctx s1))]
              (store s1 (ref hv))))
       \<and> (minDuration \<le> now s1 - now s \<and> now s1 - now s \<le> maxDuration \<longrightarrow>
            Sub (now s1) (now s) = now s1 - now s)
       \<and> (0 \<le> Status (ctx s1) \<longrightarrow>
            decimal_value (Itoa (Status (ctx s1))) = nat (Status (ctx s1)))"
  using HandlerFunc_observes [where Next = Next and F = F, OF assms]
  by (simp add: observed_same Second_def Sub_exact Itoa_decimal)

theorem elapsed_and_status_after_downstream_witness:
  "URL_String (URL (Request (ctx init))) \<noteq> MetricsPath p_api
   \<and> serve_15ms init = (Returned, served)
   \<and> reqDur p_api = Some api
   \<and> length (labelNames api) = 2
   \<and> minDuration \<le> now served - now init \<and> now served - now init \<le> maxDuration
   \<and> 0 \<le> Status (ctx served)
   \<and> Sub (now served) (now init) = 15000000
   \<and> decimal_value ''200'' = 200
   \<and> map_of (store (snd (HandlerFunc fmt_ms p_api serve_15ms init)) (ref api))
        [''200'', ''GET_/users/:id''] = Some (Observe (15 / 1000) (newHistogram reqDurBuckets))"
proof -
  have a: "minDuration \<le> now served - now init" "now served - now init \<le> maxDuration"
    by (simp_all add: served_facts minDuration_def maxDuration_def)
  have b: "child api [''200'', ''GET_/users/:id''] [] = newHistogram reqDurBuckets"
    by (simp add: child_def api_def)
  have c: "0 \<le> Status (ctx served)"
    by (simp add: served_facts)
  show ?thesis
    using elapsed_and_status_after_downstream
        [where Next = serve_15ms and F = fmt_ms,
         OF instrumented_init serve_15ms_init reqDur_p_api labelNames_api]
      instrumented_init serve_15ms_init reqDur_p_api labelNames_api a b c
    by (simp add: served_facts Itoa_200)
qed



section \<open>Construction and registration\<close>

lemma NewPrometheus_eq:
  "NewPrometheus subsystem s =
   Inr (\<lparr>reqDur = Some \<lparr>opts = \<lparr>Namespace = [], Subsystem = subsystem,
                   Name = ''request_duration_seconds'', Help = ''Histogram request latencies'',
                   Buckets = reqDurBuckets\<rparr>,
                 labelNames = [''code'', ''path''], ref = fresh s\<rparr>,
         router = None, listenAddress = [], MetricsPath = ''/metrics''\<rparr>,
        snd (Register \<lparr>opts = \<lparr>Namespace = [], Subsystem = subsystem,
                   Name = ''request_duration_seconds'', Help = ''Histogram request latencies'',
                   Buckets = reqDurBuckets\<rparr>,
                 labelNames = [''code'', ''path''], ref = fresh s\<rparr>
               (s\<lparr>store := (store s)(fresh s := []), fresh := fresh s + 1\<rparr>)))"
  by (simp add: NewPrometheus_def registerMetrics_def NewHistogramVec_def defaultMetricPath_def
      Let_def split: prod.split)

lemma NewPrometheus_labels:
  "NewPrometheus subsystem s = Inr (p, s') \<Longrightarrow>
   \<exists>hv. reqDur p = Some hv \<and> labelNames hv = [''code'', ''path''] \<and> length (labelNames hv) = 2"
  by (auto simp add: NewPrometheus_eq)

lemma Register_duplicate:
  "fqName c \<in> set (map fqName (registry s)) \<Longrightarrow> Register c s = (Some AlreadyRegisteredError, s)"
  by (simp add: Register_def)

lemma Register_new:
  "fqName c \<notin> set (map fqName (registry s)) \<Longrightarrow> Register c s = (None, s\<lparr>registry := registry s @ [c]\<rparr>)"
  by (simp add: Register_def)








section \<open>The exporter\<close>

lemma prometheusHandler_store: "store (snd (prometheusHandler expo Next s)) = store s"
  by (simp add: prometheusHandler_def ServeHTTP_def)

lemma prometheusHandler_registry: "registry (snd (prometheusHandler expo Next s)) = registry s"
  by (simp add: prometheusHandler_def ServeHTTP_def)

lemma reads_store: "store (((\<lambda>s. snd (prometheusHandler expo Next s)) ^^ n) s) = store s"
  by (induction n) (simp_all add: prometheusHandler_store)

lemma WithLabelValues_Observe_store_cong:
  "store s = store t \<Longrightarrow>
   store (snd (WithLabelValues_Observe v lvs x s)) = store (snd (WithLabelValues_Observe v lvs x t))"
  by (simp add: WithLabelValues_Observe_def split: option.split)

lemma interleave_store_cong:
  "store s = store t \<Longrightarrow> store (interleave expo Next as s) = store (interleave expo Next (filter is_Obs as) t)"
proof (induction as arbitrary: s t)
  case Nil
  then show ?case by simp
next
  case (Cons a as)
  show ?case
  proof (cases a)
    case Scrape
    have "store (snd (prometheusHandler expo Next s)) = store t"
      using Cons.prems by (simp add: prometheusHandler_store)
    then show ?thesis
      using Scrape Cons.IH by simp
  next
    case (Obs hv lvs x)
    have "store (snd (WithLabelValues_Observe (Some hv) lvs x s)) =
          store (snd (WithLabelValues_Observe (Some hv) lvs x t))"
      using Cons.prems by (rule WithLabelValues_Observe_store_cong)
    then show ?thesis
      using Obs Cons.IH by simp
  qed
qed

text \<open>
  C9. A read of the metrics endpoint leaves every histogram (bucket counters, sums and
  counts) and the registry as they were: one read, any number of reads in a row, and reads
  interleaved in any way with observations, where the store ends as if the reads had not
  happened. The same holds for a read that passes the interceptor with the metrics path
  as its URL string.
\<close>

theorem exporter_read_keeps_histograms:
  "store (snd (prometheusHandler expo Next s)) = store s
   \<and> registry (snd (prometheusHandler expo Next s)) = registry s
   \<and> store (((\<lambda>s. snd (prometheusHandler expo Next s)) ^^ n) s) = store s
   \<and> store (interleave expo Next as s) = store (interleave expo Next (filter is_Obs as) s)
   \<and> (URL_String (URL (Request (ctx s))) = MetricsPath p \<longrightarrow>
        store (snd (HandlerFunc F p (prometheusHandler expo Next) s)) = store s)"
  using interleave_store_cong [of s s expo Next as]
  by (simp add: prometheusHandler_store prometheusHandler_registry reads_store HandlerFunc_skip)

theorem exporter_read_keeps_histograms_witness:
  "URL_String (URL (Request (ctx scrape_plain))) = MetricsPath p_api
   \<and> store (snd (HandlerFunc fmt_ms p_api (prometheusHandler expo_names chain_end) scrape_plain)) =
       store scrape_plain
   \<and> store (interleave expo_names chain_end
        [Scrape, Obs api [''200'', ''GET_/users/:id''] (15 / 1000), Scrape, Scrape] scrape_plain) =
      store (snd (WithLabelValues_Observe (Some api) [''200'', ''GET_/users/:id''] (15 / 1000)
        scrape_plain))"
proof -
  have a: "URL_String (URL (Request (ctx scrape_plain))) = MetricsPath p_api"
    by (simp add: scrape_plain_def p_api_def URL_String_def)
  show ?thesis
    using exporter_read_keeps_histograms [of expo_names chain_end scrape_plain 1
        "[Scrape, Obs api [''200'', ''GET_/users/:id''] (15 / 1000), Scrape, Scrape]"
        p_api fmt_ms] a
    by simp
qed

section \<open>Bucket bounds, name and labels\<close>

lemma WithLabelValues_Observe_keeps_bounds:
  "map_of (store s r) l = Some h \<Longrightarrow>
   \<exists>h'. map_of (store (snd (WithLabelValues_Observe v lvs x s)) r) l = Some h' \<and>
        upperBounds h' = upperBounds h"
  by (auto simp add: WithLabelValues_Observe_def update_conv' child_def upperBounds_Observe
      split: option.split)

lemma WithLabelValues_Observe_new_bounds:
  "map_of (store s (ref hv)) l = None \<Longrightarrow>
   map_of (store (snd (WithLabelValues_Observe (Some hv) lvs x s)) (ref hv)) l = Some h' \<Longrightarrow>
   upperBounds h' = Buckets (opts hv)"
  by (auto simp add: WithLabelValues_Observe_def update_conv' child_def upperBounds_Observe
      newHistogram_def split: if_splits)

lemma HandlerFunc_cases:
  "snd (HandlerFunc F p Next s) = snd (Next s)
   \<or> (\<exists>lvs x out. snd (HandlerFunc F p Next s) =
         snd (WithLabelValues_Observe (reqDur p) lvs x ((snd (Next s))\<lparr>stdout := out\<rparr>)))"
proof (cases "URL_String (URL (Request (ctx s))) = MetricsPath p")
  case True
  then show ?thesis by (simp add: HandlerFunc_skip)
next
  case False
  obtain oc s1 where n: "Next s = (oc, s1)"
    by (cases "Next s")
  show ?thesis
  proof (cases oc)
    case Returned
    with False n show ?thesis
      by (auto simp add: HandlerFunc_returned)
  next
    case Panicked
    with False n show ?thesis
      by (simp add: HandlerFunc_panic)
  qed
qed

lemma HandlerFunc_keeps_bounds:
  assumes "map_of (store (snd (Next s)) r) l = Some h"
  shows "\<exists>h'. map_of (store (snd (HandlerFunc F p Next s)) r) l = Some h' \<and>
        upperBounds h' = upperBounds h"
proof -
  have "\<exists>h'. map_of (store (snd (WithLabelValues_Observe (reqDur p) lvs x
            ((snd (Next s))\<lparr>stdout := out\<rparr>))) r) l = Some h' \<and> upperBounds h' = upperBounds h"
    for lvs x out
    using assms by (intro WithLabelValues_Observe_keeps_bounds) simp
  with assms HandlerFunc_cases [of F p Next s] show ?thesis
    by auto
qed

lemma HandlerFunc_new_bounds:
  assumes "reqDur p = Some hv"
    and "map_of (store (snd (Next s)) (ref hv)) l = None"
    and "map_of (store (snd (HandlerFunc F p Next s)) (ref hv)) l = Some h'"
  shows "upperBounds h' = Buckets (opts hv)"
proof -
  from HandlerFunc_cases [of F p Next s] show ?thesis
  proof
    assume "snd (HandlerFunc F p Next s) = snd (Next s)"
    with assms(2,3) show ?thesis by simp
  next
    assume "\<exists>lvs x out. snd (HandlerFunc F p Next s) =
         snd (WithLabelValues_Observe (reqDur p) lvs x ((snd (Next s))\<lparr>stdout := out\<rparr>))"
    then obtain lvs x out where e: "snd (HandlerFunc F p Next s) =
         snd (WithLabelValues_Observe (Some hv) lvs x ((snd (Next s))\<lparr>stdout := out\<rparr>))"
      using assms(1) by auto
    have "map_of (store ((snd (Next s))\<lparr>stdout := out\<rparr>) (ref hv)) l = None"
      using assms(2) by simp
    then show ?thesis
      using assms(3) unfolding e by (rule WithLabelValues_Observe_new_bounds)
  qed
qed

lemma SetMetricsPath_reqDur:
  "SetMetricsPath expo q e = Some (q', e', srv) \<Longrightarrow> reqDur q' = reqDur q"
  by (auto simp add: SetMetricsPath_def Let_def split: if_splits option.splits)

lemma reqDurBuckets_sorted: "sorted_wrt (<) reqDurBuckets"
  by (simp add: reqDurBuckets_def)

lemma first_request:
  "map_of (store (snd (HandlerFunc fmt_ms p_api serve_15ms init)) (ref api))
     [''200'', ''GET_/users/:id''] = Some (Observe (15 / 1000) (newHistogram reqDurBuckets))"
proof -
  have "child api [''200'', ''GET_/users/:id''] [] = newHistogram reqDurBuckets"
    by (simp add: child_def api_def)
  then show ?thesis
    using HandlerFunc_observes [where Next = serve_15ms and F = fmt_ms,
        OF instrumented_init serve_15ms_init reqDur_p_api labelNames_api]
    by (simp add: observed_same served_facts Itoa_200 Sub_15ms Second_def)
qed

lemma serve_15ms_store: "store (snd (serve_15ms t)) = store t"
  by (simp add: serve_15ms_def)

lemma SetMetricsPath_p_api:
  "SetMetricsPath expo_names p_api plain_engine =
   Some (p_api, Engine_GET plain_engine ''/metrics'' (prometheusHandler expo_names), None)"
  by (simp add: SetMetricsPath_def p_api_def)

lemma UseCustom_p_api:
  "UseCustom fmt_ms expo_names p_api plain_engine =
   Some (p_api,
     Engine_GET (Engine_Use plain_engine (HandlerFunc fmt_ms p_api)) ''/metrics''
       (prometheusHandler expo_names), None)"
  by (simp add: UseCustom_def SetMetricsPath_def p_api_def)

text \<open>
  C7. The vector that \<open>NewPrometheus\<close> creates has exactly the 15 bucket bounds 0.0001,
  0.0002, 0.0005, 0.001, 0.002, 0.005, 0.01, 0.02, 0.05, 0.1, 0.2, 0.5, 1, 2, 5, strictly
  increasing. No operation changes them: the setters, \<open>SetMetricsPath\<close> and \<open>UseCustom\<close>
  keep the vector of the value they are applied to, \<open>Observe\<close> keeps the bounds of a
  histogram, the interceptor keeps the bounds of every histogram that exists when the
  downstream chain is done and gives a histogram it creates the bounds of its vector, and
  the exporter does not touch the store.
\<close>

theorem bucket_bounds_fixed:
  "(\<exists>p s' hv. NewPrometheus subsystem s = Inr (p, s') \<and> reqDur p = Some hv
      \<and> Buckets (opts hv) =
          [1 / 10000, 2 / 10000, 5 / 10000, 1 / 1000, 2 / 1000, 5 / 1000, 1 / 100, 2 / 100,
           5 / 100, 1 / 10, 2 / 10, 5 / 10, 1, 2, 5]
      \<and> length (Buckets (opts hv)) = 15
      \<and> sorted_wrt (<) (Buckets (opts hv)))
   \<and> reqDur (SetListenAddress ginDefault q a) = reqDur q
   \<and> reqDur (SetListenAddressWithRouter q a ro) = reqDur q
   \<and> (\<forall>q' e' srv. SetMetricsPath expo q e = Some (q', e', srv) \<longrightarrow> reqDur q' = reqDur q)
   \<and> (\<forall>q' e' srv. UseCustom F expo q e = Some (q', e', srv) \<longrightarrow> reqDur q' = reqDur q)
   \<and> upperBounds (Observe v h) = upperBounds h
   \<and> (map_of (store (snd (Next st)) r) l = Some h \<longrightarrow>
        (\<exists>h'. map_of (store (snd (HandlerFunc F q Next st)) r) l = Some h' \<and>
           upperBounds h' = upperBounds h))
   \<and> (reqDur q = Some hv0 \<and> map_of (store (snd (Next st)) (ref hv0)) l = None \<and>
        map_of (store (snd (HandlerFunc F q Next st)) (ref hv0)) l = Some h0 \<longrightarrow>
        upperBounds h0 = Buckets (opts hv0))
   \<and> store (snd (prometheusHandler expo Next st)) = store st"
proof (intro conjI)
  show "\<exists>p s' hv. NewPrometheus subsystem s = Inr (p, s') \<and> reqDur p = Some hv
      \<and> Buckets (opts hv) =
          [1 / 10000, 2 / 10000, 5 / 10000, 1 / 1000, 2 / 1000, 5 / 1000, 1 / 100, 2 / 100,
           5 / 100, 1 / 10, 2 / 10, 5 / 10, 1, 2, 5]
      \<and> length (Buckets (opts hv)) = 15
      \<and> sorted_wrt (<) (Buckets (opts hv))"
    using reqDurBuckets_sorted
    by (simp add: NewPrometheus_eq) (simp add: reqDurBuckets_def)
  show "reqDur (SetListenAddress ginDefault q a) = reqDur q"
    by (simp add: SetListenAddress_def Let_def)
  show "reqDur (SetListenAddressWithRouter q a ro) = reqDur q"
    by (simp add: SetListenAddressWithRouter_def Let_def)
  show "\<forall>q' e' srv. SetMetricsPath expo q e = Some (q', e', srv) \<longrightarrow> reqDur q' = reqDur q"
    using SetMetricsPath_reqDur by blast
  show "\<forall>q' e' srv. UseCustom F expo q e = Some (q', e', srv) \<longrightarrow> reqDur q' = reqDur q"
    unfolding UseCustom_def using SetMetricsPath_reqDur by blast
  show "upperBounds (Observe v h) = upperBounds h"
    by (rule upperBounds_Observe)
  show "map_of (store (snd (Next st)) r) l = Some h \<longrightarrow>
        (\<exists>h'. map_of (store (snd (HandlerFunc F q Next st)) r) l = Some h' \<and>
           upperBounds h' = upperBounds h)"
    using HandlerFunc_keeps_bounds by blast
  show "reqDur q = Some hv0 \<and> map_of (store (snd (Next st)) (ref hv0)) l = None \<and>
        map_of (store (snd (HandlerFunc F q Next st)) (ref hv0)) l = Some h0 \<longrightarrow>
        upperBounds h0 = Buckets (opts hv0)"
    using HandlerFunc_new_bounds by blast
  show "store (snd (prometheusHandler expo Next st)) = store st"
    by (rule prometheusHandler_store)
qed

theorem bucket_bounds_fixed_witness:
  "SetMetricsPath expo_names p_api plain_engine =
     Some (p_api, Engine_GET plain_engine ''/metrics'' (prometheusHandler expo_names), None)
   \<and> UseCustom fmt_ms expo_names p_api plain_engine =
     Some (p_api,
       Engine_GET (Engine_Use plain_engine (HandlerFunc fmt_ms p_api)) ''/metrics''
         (prometheusHandler expo_names), None)
   \<and> map_of (store (snd (serve_15ms (snd (HandlerFunc fmt_ms p_api serve_15ms init)))) (ref api))
        [''200'', ''GET_/users/:id''] = Some (Observe (15 / 1000) (newHistogram reqDurBuckets))
   \<and> (\<exists>h'. map_of (store (snd (HandlerFunc fmt_ms p_api serve_15ms
                 (snd (HandlerFunc fmt_ms p_api serve_15ms init)))) (ref api))
               [''200'', ''GET_/users/:id''] = Some h'
           \<and> upperBounds h' = reqDurBuckets)
   \<and> reqDur p_api = Some api
   \<and> map_of (store (snd (serve_15ms init)) (ref api)) [''200'', ''GET_/users/:id''] = None
   \<and> map_of (store (snd (HandlerFunc fmt_ms p_api serve_15ms init)) (ref api))
        [''200'', ''GET_/users/:id''] = Some (Observe (15 / 1000) (newHistogram reqDurBuckets))
   \<and> upperBounds (Observe (15 / 1000) (newHistogram reqDurBuckets)) = Buckets (opts api)"
proof -
  let ?once = "snd (HandlerFunc fmt_ms p_api serve_15ms init)"
  let ?L = "[''200'', ''GET_/users/:id'']"
  let ?h = "Observe (15 / 1000) (newHistogram reqDurBuckets)"
  have a: "map_of (store (snd (serve_15ms ?once)) (ref api)) ?L = Some ?h"
    by (simp add: serve_15ms_store first_request)
  have b: "map_of (store (snd (serve_15ms init)) (ref api)) ?L = None"
    by (simp add: serve_15ms_store init_def)
  have c: "upperBounds ?h = reqDurBuckets"
    by (simp add: upperBounds_Observe newHistogram_def)
  have d: "Buckets (opts api) = reqDurBuckets"
    by (simp add: api_def)
  have "\<exists>h'. map_of (store (snd (HandlerFunc fmt_ms p_api serve_15ms ?once)) (ref api)) ?L = Some h'
           \<and> upperBounds h' = reqDurBuckets"
    using bucket_bounds_fixed [where Next = serve_15ms and st = ?once and r = "ref api"
        and l = ?L and h = ?h and F = fmt_ms and q = p_api] a c
    by simp
  moreover have "upperBounds ?h = Buckets (opts api)"
    using bucket_bounds_fixed [where Next = serve_15ms and st = init and ?hv0.0 = api
        and l = ?L and ?h0.0 = ?h and F = fmt_ms and q = p_api] b first_request reqDur_p_api
    by blast
  ultimately show ?thesis
    using a b first_request reqDur_p_api SetMetricsPath_p_api UseCustom_p_api
    by simp
qed




end
